theory Spec2Isabelle
  imports Main
begin

section \<open>JavaScript strings\<close>

text \<open>
  A JavaScript string is a sequence of UTF-16 code units. It is modelled as the list of
  its code units, each a natural number; \<open>js\<close> turns an ASCII literal into that list.
  \<open>length\<close> is then the \<^verbatim>\<open>.length\<close> of the string and the empty list is the only
  falsy string.
\<close>

type_synonym jsstring = "nat list"

definition js :: "string \<Rightarrow> jsstring" where
  "js s = map of_char s"

text \<open>
  The code units that \<^verbatim>\<open>String.prototype.trim\<close> strips and that \<^verbatim>\<open>\s\<close> matches in a
  regular expression: WhiteSpace and LineTerminator of ECMAScript (TAB, LF, VT, FF, CR,
  SP, NBSP, U+1680, U+2000 to U+200A, U+2028, U+2029, U+202F, U+205F, U+3000, U+FEFF).
\<close>

definition isWhiteSpace :: "nat \<Rightarrow> bool" where
  "isWhiteSpace c \<longleftrightarrow>
     c = 9 \<or> c = 10 \<or> c = 11 \<or> c = 12 \<or> c = 13 \<or> c = 32 \<or> c = 160 \<or> c = 5760 \<or>
     (8192 \<le> c \<and> c \<le> 8202) \<or> c = 8232 \<or> c = 8233 \<or> c = 8239 \<or> c = 8287 \<or>
     c = 12288 \<or> c = 65279"

definition trim :: "jsstring \<Rightarrow> jsstring" where
  "trim s = rev (dropWhile isWhiteSpace (rev (dropWhile isWhiteSpace s)))"

text \<open>
  \<^verbatim>\<open>Number.prototype.toString\<close> on a non-negative integer below \<open>10^21\<close> (every value
  of \<^verbatim>\<open>Date.now()\<close>): its decimal digits, most significant first.
\<close>

function decimal :: "nat \<Rightarrow> jsstring" where
  "decimal n = (if n < 10 then [48 + n] else decimal (n div 10) @ [48 + n mod 10])"
  by pat_completeness auto
termination
  by (relation "measure id") auto

declare decimal.simps [simp del]

section \<open>The to-do list (TodoList component)\<close>

text \<open>
  \<^verbatim>\<open>interface TodoItem { id: string; text: string; completed: boolean; createdAt: Date }\<close>.
  A \<^verbatim>\<open>Date\<close> is held as its time value, the milliseconds since the epoch.
\<close>

record TodoItem =
  todo_id :: jsstring
  todo_text :: jsstring
  completed :: bool
  todo_createdAt :: nat

text \<open>The two pieces of component state that \<^verbatim>\<open>addTodo\<close> reads and writes.\<close>

record TodoList =
  todos :: "TodoItem list"
  newTodo :: jsstring

text \<open>
  \<^verbatim>\<open>
  const addTodo = () => {
    if (!newTodo.trim()) return;
    const todo: TodoItem = {
      id: Date.now().toString(), text: newTodo.trim(),
      completed: false, createdAt: new Date(),
    };
    setTodos(prev => [todo, ...prev]);
    setNewTodo('');
  };
  \<close>
  The two clock reads are inputs: \<open>now\<close> is the value of \<^verbatim>\<open>Date.now()\<close> and \<open>date\<close> the
  time value of \<^verbatim>\<open>new Date()\<close>.
\<close>

definition addTodo :: "nat \<Rightarrow> nat \<Rightarrow> TodoList \<Rightarrow> TodoList" where
  "addTodo now date st =
     (if trim (newTodo st) = [] then st
      else
        let todo = \<lparr>todo_id = decimal now, todo_text = trim (newTodo st),
                    completed = False, todo_createdAt = date\<rparr>
        in st\<lparr>todos := todo # todos st, newTodo := []\<rparr>)"

definition toggleTodo :: "jsstring \<Rightarrow> TodoList \<Rightarrow> TodoList" where
  "toggleTodo i st =
     st\<lparr>todos := map (\<lambda>todo. if todo_id todo = i then todo\<lparr>completed := \<not> completed todo\<rparr> else todo)
                      (todos st)\<rparr>"

definition deleteTodo :: "jsstring \<Rightarrow> TodoList \<Rightarrow> TodoList" where
  "deleteTodo i st = st\<lparr>todos := filter (\<lambda>todo. todo_id todo \<noteq> i) (todos st)\<rparr>"

section \<open>The quiz runner (QuizGenerator component)\<close>

datatype difficulty = Easy | Medium | Hard

text \<open>
  \<^verbatim>\<open>interface MCQuestion\<close> and \<^verbatim>\<open>interface QuizResult\<close> of the types module. An option
  index is a whole number, so \<^verbatim>\<open>number\<close> is \<open>int\<close> here.
\<close>

record MCQuestion =
  q_id :: jsstring
  question :: jsstring
  options :: "jsstring list"
  correctAnswer :: int
  explanation :: jsstring
  q_difficulty :: difficulty
  q_tags :: "jsstring list"
  q_createdAt :: nat

record AnswerRecord =
  questionId :: jsstring
  selectedAnswer :: int
  correct :: bool

record QuizResult =
  result_id :: jsstring
  score :: nat
  totalQuestions :: nat
  answers :: "AnswerRecord list"
  completedAt :: nat

text \<open>
  The component state that the quiz run uses. \<open>selectedAnswers\<close> is the object
  \<^verbatim>\<open>{ [key: string]: number }\<close>: a key that was never assigned reads as \<^verbatim>\<open>undefined\<close>,
  which is \<open>None\<close>. (The names that every object inherits, such as \<^verbatim>\<open>constructor\<close>,
  are no question ids: the component makes an id from the clock and a random number.)
\<close>

record QuizGenerator =
  questions :: "MCQuestion list"
  currentQuestionIndex :: nat
  selectedAnswers :: "jsstring \<rightharpoonup> int"
  showResults :: bool
  quizStarted :: bool
  quizResults :: "QuizResult list"

definition startQuiz :: "QuizGenerator \<Rightarrow> QuizGenerator" where
  "startQuiz st =
     st\<lparr>quizStarted := True, currentQuestionIndex := 0, selectedAnswers := Map.empty,
        showResults := False\<rparr>"

definition handleAnswerSelect :: "jsstring \<Rightarrow> int \<Rightarrow> QuizGenerator \<Rightarrow> QuizGenerator" where
  "handleAnswerSelect qid answerIndex st =
     st\<lparr>selectedAnswers := (selectedAnswers st)(qid \<mapsto> answerIndex)\<rparr>"

text \<open>
  \<^verbatim>\<open>
  const finishQuiz = () => {
    setShowResults(true);
    const answers = questions.map(question => ({
      questionId: question.id,
      selectedAnswer: selectedAnswers[question.id] ?? -1,
      correct: selectedAnswers[question.id] === question.correctAnswer,
    }));
    const score = answers.filter(answer => answer.correct).length;
    const result: QuizResult = {
      id: Date.now().toString(), score, totalQuestions: questions.length,
      answers, completedAt: new Date(),
    };
    setQuizResults(prev => [result, ...prev]);
    toast(...);
  };
  \<close>
  The toast is a notification on screen and changes no state; it is left out.
\<close>

definition finishQuiz :: "nat \<Rightarrow> nat \<Rightarrow> QuizGenerator \<Rightarrow> QuizGenerator" where
  "finishQuiz now date st =
     (let answers' = map (\<lambda>question.
                       \<lparr>questionId = q_id question,
                        selectedAnswer =
                          (case selectedAnswers st (q_id question) of None \<Rightarrow> - 1 | Some a \<Rightarrow> a),
                        correct = (selectedAnswers st (q_id question) = Some (correctAnswer question))\<rparr>)
                     (questions st);
          score' = length (filter correct answers');
          result = \<lparr>result_id = decimal now, score = score',
                    totalQuestions = length (questions st), answers = answers',
                    completedAt = date\<rparr>
      in st\<lparr>showResults := True, quizResults := result # quizResults st\<rparr>)"

definition nextQuestion :: "nat \<Rightarrow> nat \<Rightarrow> QuizGenerator \<Rightarrow> QuizGenerator" where
  "nextQuestion now date st =
     (if int (currentQuestionIndex st) < int (length (questions st)) - 1
      then st\<lparr>currentQuestionIndex := currentQuestionIndex st + 1\<rparr>
      else finishQuiz now date st)"

section \<open>JavaScript values and JSON.parse\<close>

text \<open>
  The values that reach the code below: what \<^verbatim>\<open>JSON.parse\<close> can return, and
  \<^verbatim>\<open>undefined\<close> and \<^verbatim>\<open>Date\<close> objects besides. A number \<open>JNumber m e\<close> is the decimal
  \<open>m * 10^e\<close>, with \<open>m\<close> not a multiple of ten unless it is zero. JavaScript rounds a
  number to a double and knows a negative zero, infinities and NaN; these are not
  modelled, and nothing below computes with a number. An object is the list of its
  properties in the order of their creation, without repeated keys (JavaScript lists
  the properties whose names are array indices first; nothing below depends on the
  order of properties). A \<^verbatim>\<open>Date\<close> is its time value, at or after the epoch.
\<close>

datatype jsvalue =
    JUndefined
  | JNull
  | JBool bool
  | JNumber int int
  | JString jsstring
  | JDate nat
  | JArray "jsvalue list"
  | JObject "(jsstring \<times> jsvalue) list"

text \<open>
  \<^verbatim>\<open>JSON.parse\<close> is a built-in of the platform. It is modelled as a recursive descent
  parser of the JSON grammar (ECMA-404): white space is SP, TAB, LF and CR; a string may
  not hold a code unit below U+0020 and knows the escapes of the quote, the backslash,
  the slash, b, f, n, r, t and u with four hexadecimal digits; a number has no leading
  zero, and digits after a point and after an exponent mark; a repeated key keeps its
  first place and its last value. \<open>None\<close> is the SyntaxError.
\<close>

definition isDigit :: "nat \<Rightarrow> bool" where
  "isDigit c \<longleftrightarrow> 48 \<le> c \<and> c \<le> 57"

definition isJsonWs :: "nat \<Rightarrow> bool" where
  "isJsonWs c \<longleftrightarrow> c = 32 \<or> c = 9 \<or> c = 10 \<or> c = 13"

definition skip_ws :: "jsstring \<Rightarrow> jsstring" where
  "skip_ws cs = dropWhile isJsonWs cs"

definition hexval :: "nat \<Rightarrow> nat option" where
  "hexval c =
     (if 48 \<le> c \<and> c \<le> 57 then Some (c - 48)
      else if 97 \<le> c \<and> c \<le> 102 then Some (c - 87)
      else if 65 \<le> c \<and> c \<le> 70 then Some (c - 55)
      else None)"

definition escape_char :: "nat \<Rightarrow> nat option" where
  "escape_char e =
     (if e = 34 \<or> e = 92 \<or> e = 47 then Some e
      else if e = 98 then Some 8
      else if e = 102 then Some 12
      else if e = 110 then Some 10
      else if e = 114 then Some 13
      else if e = 116 then Some 9
      else None)"

definition cons_char :: "nat \<Rightarrow> (jsstring \<times> jsstring) option \<Rightarrow> (jsstring \<times> jsstring) option" where
  "cons_char c r = (case r of None \<Rightarrow> None | Some (s, rest) \<Rightarrow> Some (c # s, rest))"

fun string_chars :: "jsstring \<Rightarrow> (jsstring \<times> jsstring) option" where
  "string_chars [] = None"
| "string_chars (c # cs) =
     (if c = 34 then Some ([], cs)
      else if c = 92 then
        (case cs of
           [] \<Rightarrow> None
         | e # es \<Rightarrow>
             if e = 117 then
               (case es of
                  h3 # h2 # h1 # h0 # rest \<Rightarrow>
                    (case (hexval h3, hexval h2, hexval h1, hexval h0) of
                       (Some a, Some b, Some c', Some d) \<Rightarrow>
                         cons_char (a * 4096 + b * 256 + c' * 16 + d) (string_chars rest)
                     | _ \<Rightarrow> None)
                | _ \<Rightarrow> None)
             else
               (case escape_char e of
                  None \<Rightarrow> None
                | Some x \<Rightarrow> cons_char x (string_chars es)))
      else if c < 32 then None
      else cons_char c (string_chars cs))"

definition digits_value :: "jsstring \<Rightarrow> nat" where
  "digits_value ds = foldl (\<lambda>a d. 10 * a + (d - 48)) 0 ds"

definition mk_number :: "bool \<Rightarrow> jsstring \<Rightarrow> jsstring \<Rightarrow> int \<Rightarrow> jsvalue" where
  "mk_number neg ip fp ex =
     (let ds = ip @ fp;
          z = length (takeWhile (\<lambda>d. d = 48) (rev ds));
          m = digits_value (take (length ds - z) ds)
      in if m = 0 then JNumber 0 0
         else JNumber (if neg then - int m else int m) (ex - int (length fp) + int z))"

definition parse_exponent :: "jsstring \<Rightarrow> (int \<times> jsstring) option" where
  "parse_exponent cs =
     (case cs of
        [] \<Rightarrow> Some (0, cs)
      | c # r \<Rightarrow>
          if c = 101 \<or> c = 69 then
            (let neg = (r \<noteq> [] \<and> hd r = 45);
                 r' = (if r \<noteq> [] \<and> (hd r = 45 \<or> hd r = 43) then tl r else r);
                 ds = takeWhile isDigit r'
             in if ds = [] then None
                else Some ((if neg then - int (digits_value ds) else int (digits_value ds)),
                           dropWhile isDigit r'))
          else Some (0, cs))"

definition parse_fraction :: "jsstring \<Rightarrow> (jsstring \<times> jsstring) option" where
  "parse_fraction cs =
     (case cs of
        [] \<Rightarrow> Some ([], cs)
      | c # r \<Rightarrow>
          if c = 46 then
            (let ds = takeWhile isDigit r
             in if ds = [] then None else Some (ds, dropWhile isDigit r))
          else Some ([], cs))"

definition parse_number :: "jsstring \<Rightarrow> (jsvalue \<times> jsstring) option" where
  "parse_number cs =
     (let neg = (cs \<noteq> [] \<and> hd cs = 45);
          r = (if neg then tl cs else cs);
          ip = (if r \<noteq> [] \<and> hd r = 48 then [48] else takeWhile isDigit r);
          r1 = drop (length ip) r
      in if ip = [] then None
         else
           (case parse_fraction r1 of
              None \<Rightarrow> None
            | Some (fp, r2) \<Rightarrow>
                (case parse_exponent r2 of
                   None \<Rightarrow> None
                 | Some (ex, r3) \<Rightarrow> Some (mk_number neg ip fp ex, r3))))"

text \<open>
  The parser of values, array elements and object members recurses on a fuel counter.
  \<open>Fuel\<close> is the result when the counter runs out, \<open>Bad\<close> a syntax error. Two units of
  fuel per code unit and one more are enough for every input (\<open>JSON_parse_fuel\<close> below),
  and that is what \<open>JSON_parse\<close> supplies.
\<close>

datatype 'a parsed = Parsed 'a jsstring | Bad | Fuel

definition set_member :: "jsstring \<Rightarrow> jsvalue \<Rightarrow> (jsstring \<times> jsvalue) list \<Rightarrow> (jsstring \<times> jsvalue) list" where
  "set_member k v ms =
     (k, case map_of ms k of None \<Rightarrow> v | Some v' \<Rightarrow> v') # filter (\<lambda>m. fst m \<noteq> k) ms"

fun parse_value :: "nat \<Rightarrow> jsstring \<Rightarrow> jsvalue parsed"
  and parse_elements :: "nat \<Rightarrow> jsstring \<Rightarrow> jsvalue list parsed"
  and parse_members :: "nat \<Rightarrow> jsstring \<Rightarrow> (jsstring \<times> jsvalue) list parsed" where
  "parse_value 0 cs = Fuel"
| "parse_value (Suc n) cs =
     (case skip_ws cs of
        [] \<Rightarrow> Bad
      | c # r \<Rightarrow>
          if c = 91 then
            (case skip_ws r of
               [] \<Rightarrow> Bad
             | c' # r' \<Rightarrow>
                 if c' = 93 then Parsed (JArray []) r'
                 else (case parse_elements n r of
                         Parsed vs r'' \<Rightarrow> Parsed (JArray vs) r''
                       | Bad \<Rightarrow> Bad
                       | Fuel \<Rightarrow> Fuel))
          else if c = 123 then
            (case skip_ws r of
               [] \<Rightarrow> Bad
             | c' # r' \<Rightarrow>
                 if c' = 125 then Parsed (JObject []) r'
                 else (case parse_members n r of
                         Parsed ms r'' \<Rightarrow> Parsed (JObject ms) r''
                       | Bad \<Rightarrow> Bad
                       | Fuel \<Rightarrow> Fuel))
          else if c = 34 then
            (case string_chars r of
               None \<Rightarrow> Bad
             | Some (s, r') \<Rightarrow> Parsed (JString s) r')
          else if take 4 (c # r) = js ''true'' then Parsed (JBool True) (drop 3 r)
          else if take 5 (c # r) = js ''false'' then Parsed (JBool False) (drop 4 r)
          else if take 4 (c # r) = js ''null'' then Parsed JNull (drop 3 r)
          else
            (case parse_number (c # r) of
               None \<Rightarrow> Bad
             | Some (v, r') \<Rightarrow> Parsed v r'))"
| "parse_elements 0 cs = Fuel"
| "parse_elements (Suc n) cs =
     (case parse_value n cs of
        Parsed v r \<Rightarrow>
          (case skip_ws r of
             [] \<Rightarrow> Bad
           | c # r' \<Rightarrow>
               if c = 44 then
                 (case parse_elements n r' of
                    Parsed vs r'' \<Rightarrow> Parsed (v # vs) r''
                  | Bad \<Rightarrow> Bad
                  | Fuel \<Rightarrow> Fuel)
               else if c = 93 then Parsed [v] r'
               else Bad)
      | Bad \<Rightarrow> Bad
      | Fuel \<Rightarrow> Fuel)"
| "parse_members 0 cs = Fuel"
| "parse_members (Suc n) cs =
     (case skip_ws cs of
        [] \<Rightarrow> Bad
      | q # r \<Rightarrow>
          if q \<noteq> 34 then Bad
          else
            (case string_chars r of
               None \<Rightarrow> Bad
             | Some (k, r1) \<Rightarrow>
                 (case skip_ws r1 of
                    [] \<Rightarrow> Bad
                  | c # r2 \<Rightarrow>
                      if c \<noteq> 58 then Bad
                      else
                        (case parse_value n r2 of
                           Parsed v r3 \<Rightarrow>
                             (case skip_ws r3 of
                                [] \<Rightarrow> Bad
                              | c' # r4 \<Rightarrow>
                                  if c' = 44 then
                                    (case parse_members n r4 of
                                       Parsed ms r5 \<Rightarrow> Parsed (set_member k v ms) r5
                                     | Bad \<Rightarrow> Bad
                                     | Fuel \<Rightarrow> Fuel)
                                  else if c' = 125 then Parsed [(k, v)] r4
                                  else Bad)
                         | Bad \<Rightarrow> Bad
                         | Fuel \<Rightarrow> Fuel))))"

primrec fuel_for :: "jsstring \<Rightarrow> nat" where
  "fuel_for [] = Suc 0"
| "fuel_for (c # cs) = Suc (Suc (fuel_for cs))"

definition JSON_parse :: "jsstring \<Rightarrow> jsvalue option" where
  "JSON_parse s =
     (case parse_value (fuel_for s) s of
        Parsed v r \<Rightarrow> if skip_ws r = [] then Some v else None
      | Bad \<Rightarrow> None
      | Fuel \<Rightarrow> None)"

section \<open>The model gateway (ai-service)\<close>

text \<open>
  A thrown value. \<open>Error m\<close> is \<^verbatim>\<open>new Error(m)\<close>; \<open>TypeError\<close> and \<open>SyntaxError\<close> are
  what the platform throws on a call on a value that has no such method and on
  \<^verbatim>\<open>JSON.parse\<close> of a malformed text. A function that can throw, or an async function
  whose promise can reject, returns \<open>js_error + 'a\<close>, with \<open>Inl\<close> the thrown value.
\<close>

datatype js_error = Error jsstring | TypeError | SyntaxError

text \<open>
  The network is an input: it maps the request that \<^verbatim>\<open>fetch\<close> sends to what comes
  back, a rejection (the endpoint cannot be reached) or a response with a status and a
  body. \<open>payload\<close> is the value that the code hands to \<^verbatim>\<open>JSON.stringify\<close> for the
  request body. \<^verbatim>\<open>response.ok\<close> is true for a status from 200 to 299.
\<close>

record Request =
  url :: jsstring
  http_method :: jsstring
  headers :: "(jsstring \<times> jsstring) list"
  payload :: "jsvalue option"

record Response =
  status :: nat
  body :: jsstring

datatype fetch_result = Rejected | Fulfilled Response

type_synonym network = "Request \<Rightarrow> fetch_result"

definition ok :: "Response \<Rightarrow> bool" where
  "ok r \<longleftrightarrow> 200 \<le> status r \<and> status r \<le> 299"

definition OLLAMA_BASE_URL :: jsstring where
  "OLLAMA_BASE_URL = js ''http://localhost:11434''"

text \<open>
  \<^verbatim>\<open>localStorage.getItem('selectedOllamaModel') || 'llama2'\<close>: the stored item, unless it
  is absent or the empty string.
\<close>

definition selectedModel :: "jsstring option \<Rightarrow> jsstring" where
  "selectedModel stored =
     (case stored of None \<Rightarrow> js ''llama2'' | Some m \<Rightarrow> if m = [] then js ''llama2'' else m)"

definition generate_request :: "jsstring option \<Rightarrow> jsstring \<Rightarrow> Request" where
  "generate_request stored prompt =
     \<lparr>url = OLLAMA_BASE_URL @ js ''/api/generate'', http_method = js ''POST'',
      headers = [(js ''Content-Type'', js ''application/json'')],
      payload = Some (JObject [(js ''model'', JString (selectedModel stored)),
                               (js ''prompt'', JString prompt),
                               (js ''stream'', JBool False)])\<rparr>"

text \<open>
  Reading the property \<^verbatim>\<open>response\<close> of the parsed body: a TypeError on \<^verbatim>\<open>null\<close>, the
  property of an object, and \<^verbatim>\<open>undefined\<close> where there is no such property (an object
  without it, an array, a string, a number, a boolean).
\<close>

definition get_response :: "jsvalue \<Rightarrow> js_error + jsvalue" where
  "get_response data =
     (case data of
        JNull \<Rightarrow> Inl TypeError
      | JUndefined \<Rightarrow> Inl TypeError
      | JObject ms \<Rightarrow> Inr (case map_of ms (js ''response'') of None \<Rightarrow> JUndefined | Some v \<Rightarrow> v)
      | _ \<Rightarrow> Inr JUndefined)"

text \<open>
  \<^verbatim>\<open>
  async function callOllama(prompt: string): Promise<string> {
    const selectedModel = localStorage.getItem('selectedOllamaModel') || 'llama2';
    try {
      const response = await fetch(OLLAMA_BASE_URL + '/api/generate', {...});
      if (!response.ok) {
        throw new Error('Ollama API error: ' + response.status);
      }
      const data: OllamaResponse = await response.json();
      return data.response;
    } catch (error) {
      console.error('Error calling Ollama:', error);
      throw new Error('Failed to connect to Ollama. Make sure Ollama is running on localhost:11434');
    }
  }
  \<close>
  \<open>callOllama_try\<close> is the \<^verbatim>\<open>try\<close> block, \<open>callOllama\<close> the function with its
  \<^verbatim>\<open>catch\<close>. \<open>stored\<close> is the item \<^verbatim>\<open>selectedOllamaModel\<close> of the local storage.
\<close>

definition callOllama_try :: "network \<Rightarrow> jsstring option \<Rightarrow> jsstring \<Rightarrow> js_error + jsvalue" where
  "callOllama_try net stored prompt =
     (case net (generate_request stored prompt) of
        Rejected \<Rightarrow> Inl TypeError
      | Fulfilled response \<Rightarrow>
          if \<not> ok response then Inl (Error (js ''Ollama API error: '' @ decimal (status response)))
          else
            (case JSON_parse (body response) of
               None \<Rightarrow> Inl SyntaxError
             | Some data \<Rightarrow> get_response data))"

definition connect_message :: jsstring where
  "connect_message =
     js ''Failed to connect to Ollama. Make sure Ollama is running on localhost:11434''"

definition callOllama :: "network \<Rightarrow> jsstring option \<Rightarrow> jsstring \<Rightarrow> js_error + jsvalue" where
  "callOllama net stored prompt =
     (case callOllama_try net stored prompt of
        Inl error \<Rightarrow> Inl (Error connect_message)
      | Inr completion \<Rightarrow> Inr completion)"

text \<open>
  \<^verbatim>\<open>
  export async function checkOllamaConnection(): Promise<boolean> {
    try {
      const response = await fetch(OLLAMA_BASE_URL + '/api/tags');
      return response.ok;
    } catch (error) {
      return false;
    }
  }
  \<close>
\<close>

definition tags_request :: Request where
  "tags_request =
     \<lparr>url = OLLAMA_BASE_URL @ js ''/api/tags'', http_method = js ''GET'', headers = [],
      payload = None\<rparr>"

definition checkOllamaConnection :: "network \<Rightarrow> js_error + bool" where
  "checkOllamaConnection net =
     (case net tags_request of
        Rejected \<Rightarrow> Inr False
      | Fulfilled response \<Rightarrow> Inr (ok response))"

section \<open>The content transformer (ai-service)\<close>

definition difficulty_name :: "difficulty \<Rightarrow> jsstring" where
  "difficulty_name d = (case d of Easy \<Rightarrow> js ''easy'' | Medium \<Rightarrow> js ''medium'' | Hard \<Rightarrow> js ''hard'')"

datatype note_style = Bullet | Detailed | Condensed

definition styleInstructions :: "note_style \<Rightarrow> jsstring" where
  "styleInstructions style =
     (case style of
        Bullet \<Rightarrow> js ''Create concise bullet-point study notes from the following content. Use clear headings and organize information hierarchically with bullet points. Focus on key concepts, important details, and main takeaways. Format with markdown headers and bullet points.''
      | Detailed \<Rightarrow> js ''Create comprehensive, detailed study notes from the following content. Include thorough explanations, examples, and context. Organize with clear sections and subsections. Provide in-depth coverage of all important concepts with supporting details and explanations.''
      | Condensed \<Rightarrow> js ''Create an ultra-condensed summary from the following content. Focus only on the most essential information. Use minimal text while capturing all critical points. Format as a brief, scannable summary with key facts and takeaways.'')"

definition notes_prompt :: "jsstring \<Rightarrow> note_style \<Rightarrow> jsstring" where
  "notes_prompt content style =
     styleInstructions style @
     js ''\<newline>\<newline>Content to process:\<newline>'' @ content @
     js ''\<newline>\<newline>Please generate well-structured study notes in the requested style:''"

definition generateNotes :: "network \<Rightarrow> jsstring option \<Rightarrow> jsstring \<Rightarrow> note_style \<Rightarrow> js_error + jsvalue" where
  "generateNotes net stored content style = callOllama net stored (notes_prompt content style)"

text \<open>
  \<^verbatim>\<open>response.match(/\[[\s\S]*\]/)\<close>: the match starts at the first \<^verbatim>\<open>[\<close> and, the star
  being greedy, ends at the last \<^verbatim>\<open>]\<close> after it; there is none when no \<^verbatim>\<open>]\<close> follows
  the first \<^verbatim>\<open>[\<close>. \<open>jsonMatch\<close> is \<^verbatim>\<open>jsonMatch[0]\<close>, or \<open>None\<close> for \<^verbatim>\<open>null\<close>.
\<close>

definition jsonMatch :: "jsstring \<Rightarrow> jsstring option" where
  "jsonMatch response =
     (let t = dropWhile (\<lambda>c. c \<noteq> 91) response
      in if t = [] then None
         else if 93 \<in> set (tl t) then Some (rev (dropWhile (\<lambda>c. c \<noteq> 93) (rev t)))
         else None)"

text \<open>\<^verbatim>\<open>s.split(sep)\<close> for a separator of one code unit.\<close>

fun split_on :: "nat \<Rightarrow> jsstring \<Rightarrow> jsstring list" where
  "split_on sep [] = [[]]"
| "split_on sep (c # cs) =
     (if c = sep then [] # split_on sep cs
      else (case split_on sep cs of [] \<Rightarrow> [[c]] | l # ls \<Rightarrow> (c # l) # ls))"

text \<open>
  \<^verbatim>\<open>line.replace(/^\d+\.\s*/, '')\<close>: a leading run of ASCII digits, a full stop and the
  white space after it are removed; a line that does not start so is unchanged.
\<close>

definition strip_ordinal :: "jsstring \<Rightarrow> jsstring" where
  "strip_ordinal line =
     (let r = dropWhile isDigit line
      in if takeWhile isDigit line \<noteq> [] \<and> r \<noteq> [] \<and> hd r = 46
         then dropWhile isWhiteSpace (tl r)
         else line)"

definition flashcard :: "jsstring \<Rightarrow> jsstring \<Rightarrow> jsvalue" where
  "flashcard f b = JObject [(js ''front'', JString f), (js ''back'', JString b)]"

text \<open>
  The loop \<^verbatim>\<open>for (let i = 0; i < lines.length; i += 2)\<close>: it takes the lines two at a
  time; \<^verbatim>\<open>lines[i + 1]\<close> is \<^verbatim>\<open>undefined\<close>, and so falsy, past the last line.
\<close>

fun pair_lines :: "jsstring list \<Rightarrow> jsvalue list" where
  "pair_lines (l0 # l1 # ls) =
     (if l0 \<noteq> [] \<and> l1 \<noteq> [] then [flashcard (trim (strip_ordinal l0)) (trim l1)] else [])
     @ pair_lines ls"
| "pair_lines [l0] = []"
| "pair_lines [] = []"

definition flashcard_instructions :: "difficulty \<Rightarrow> jsstring" where
  "flashcard_instructions d =
     (case d of
        Easy \<Rightarrow> js ''Create simple, straightforward flashcards focusing on basic facts and definitions.''
      | Medium \<Rightarrow> js ''Create moderately challenging flashcards that require some analysis and understanding.''
      | Hard \<Rightarrow> js ''Create advanced flashcards that require critical thinking, synthesis, and deep understanding.'')"

definition flashcard_prompt :: "jsstring \<Rightarrow> difficulty \<Rightarrow> jsstring" where
  "flashcard_prompt content d =
     js ''Create exactly 5 flashcards from the following content. '' @ flashcard_instructions d @
     js ''\<newline>\<newline>Format your response as a JSON array with objects containing \"front\" and \"back\" properties. Each flashcard should have a clear question or prompt on the front and a comprehensive answer on the back.\<newline>\<newline>Content:\<newline>'' @
     content @
     js ''\<newline>\<newline>Respond with only the JSON array, no additional text:''"

definition fallback_flashcards :: jsvalue where
  "fallback_flashcards =
     JArray
       [flashcard (js ''What is the main topic of the provided content?'')
          (js ''The content covers key concepts and information that can be studied and reviewed.''),
        flashcard (js ''What are the key takeaways from this material?'')
          (js ''The material provides important insights and knowledge for understanding the subject matter.'')]"

text \<open>
  \<^verbatim>\<open>
  try {
    const response = await callOllama(prompt);
    const jsonMatch = response.match(/\[[\s\S]*\]/);
    if (jsonMatch) {
      return JSON.parse(jsonMatch[0]);
    }
    const lines = response.split('\n').filter(line => line.trim());
    const flashcards = [];
    for (let i = 0; i < lines.length; i += 2) {
      if (lines[i] && lines[i + 1]) {
        flashcards.push({
          front: lines[i].replace(/^\d+\.\s*/, '').trim(),
          back: lines[i + 1].trim()
        });
      }
    }
    return flashcards.slice(0, 5);
  } catch (error) {
    console.error('Error parsing flashcards:', error);
    return [ ...the two fallback flashcards... ];
  }
  \<close>
  \<open>generateFlashcards_try\<close> is the \<^verbatim>\<open>try\<close> block. A value that is not a string has no
  method \<^verbatim>\<open>match\<close>, so the call on it throws a TypeError.
\<close>

definition generateFlashcards_try ::
  "network \<Rightarrow> jsstring option \<Rightarrow> jsstring \<Rightarrow> difficulty \<Rightarrow> js_error + jsvalue" where
  "generateFlashcards_try net stored content d =
     (case callOllama net stored (flashcard_prompt content d) of
        Inl error \<Rightarrow> Inl error
      | Inr (JString response) \<Rightarrow>
          (case jsonMatch response of
             Some m \<Rightarrow> (case JSON_parse m of None \<Rightarrow> Inl SyntaxError | Some v \<Rightarrow> Inr v)
           | None \<Rightarrow>
               (let lines = filter (\<lambda>line. trim line \<noteq> []) (split_on 10 response)
                in Inr (JArray (take 5 (pair_lines lines)))))
      | Inr _ \<Rightarrow> Inl TypeError)"

definition generateFlashcards ::
  "network \<Rightarrow> jsstring option \<Rightarrow> jsstring \<Rightarrow> difficulty \<Rightarrow> js_error + jsvalue" where
  "generateFlashcards net stored content d =
     (case generateFlashcards_try net stored content d of
        Inl error \<Rightarrow> Inr fallback_flashcards
      | Inr cards \<Rightarrow> Inr cards)"

definition mcq_instructions :: "difficulty \<Rightarrow> jsstring" where
  "mcq_instructions d =
     (case d of
        Easy \<Rightarrow> js ''Create straightforward multiple-choice questions focusing on basic facts and recall.''
      | Medium \<Rightarrow> js ''Create moderately challenging questions that require understanding and application.''
      | Hard \<Rightarrow> js ''Create advanced questions requiring analysis, synthesis, and critical thinking.'')"

definition mcq_prompt :: "jsstring \<Rightarrow> difficulty \<Rightarrow> jsstring" where
  "mcq_prompt content d =
     js ''Create exactly 3 multiple-choice questions from the following content. '' @ mcq_instructions d @
     js ''\<newline>\<newline>Format your response as a JSON array with objects containing:\<newline>- \"question\": the question text\<newline>- \"options\": array of 4 possible answers\<newline>- \"correctAnswer\": index (0-3) of the correct answer\<newline>- \"explanation\": explanation of why the answer is correct\<newline>\<newline>Content:\<newline>'' @
     content @
     js ''\<newline>\<newline>Respond with only the JSON array, no additional text:''"

definition mcq :: "jsstring \<Rightarrow> jsstring list \<Rightarrow> int \<Rightarrow> jsstring \<Rightarrow> jsvalue" where
  "mcq q os a e =
     JObject [(js ''question'', JString q), (js ''options'', JArray (map JString os)),
              (js ''correctAnswer'', JNumber a 0), (js ''explanation'', JString e)]"

text \<open>The questions returned when the completion has no bracketed part.\<close>

definition fallback_questions :: jsvalue where
  "fallback_questions =
     JArray
       [mcq (js ''Based on the provided content, what is the main focus?'')
          [js ''Key concepts and important information'', js ''Irrelevant details'',
           js ''Random facts'', js ''Unrelated topics'']
          0
          (js ''The content focuses on key concepts and important information relevant to the subject matter.''),
        mcq (js ''What can be learned from studying this material?'')
          [js ''Nothing useful'', js ''Important knowledge and insights'',
           js ''Only basic facts'', js ''Confusing information'']
          1
          (js ''The material provides important knowledge and insights that enhance understanding of the topic.'')]"

text \<open>The question returned from the \<^verbatim>\<open>catch\<close> block.\<close>

definition fallback_question_on_error :: jsvalue where
  "fallback_question_on_error =
     JArray
       [mcq (js ''What is the primary purpose of this study material?'')
          [js ''To provide educational content'', js ''To confuse students'',
           js ''To waste time'', js ''To provide entertainment'']
          0
          (js ''The primary purpose is to provide educational content for learning and understanding.'')]"

text \<open>
  \<^verbatim>\<open>
  try {
    const response = await callOllama(prompt);
    const jsonMatch = response.match(/\[[\s\S]*\]/);
    if (jsonMatch) {
      return JSON.parse(jsonMatch[0]);
    }
    return [ ...the two fallback questions... ];
  } catch (error) {
    console.error('Error parsing MCQs:', error);
    return [ ...the one fallback question... ];
  }
  \<close>
\<close>

definition generateMCQs_try ::
  "network \<Rightarrow> jsstring option \<Rightarrow> jsstring \<Rightarrow> difficulty \<Rightarrow> js_error + jsvalue" where
  "generateMCQs_try net stored content d =
     (case callOllama net stored (mcq_prompt content d) of
        Inl error \<Rightarrow> Inl error
      | Inr (JString response) \<Rightarrow>
          (case jsonMatch response of
             Some m \<Rightarrow> (case JSON_parse m of None \<Rightarrow> Inl SyntaxError | Some v \<Rightarrow> Inr v)
           | None \<Rightarrow> Inr fallback_questions)
      | Inr _ \<Rightarrow> Inl TypeError)"

definition generateMCQs ::
  "network \<Rightarrow> jsstring option \<Rightarrow> jsstring \<Rightarrow> difficulty \<Rightarrow> js_error + jsvalue" where
  "generateMCQs net stored content d =
     (case generateMCQs_try net stored content d of
        Inl error \<Rightarrow> Inr fallback_question_on_error
      | Inr parsed \<Rightarrow> Inr parsed)"

section \<open>The flashcard generator (FlashcardGenerator component)\<close>

text \<open>
  Reading a property of a value that is neither \<^verbatim>\<open>null\<close> nor \<^verbatim>\<open>undefined\<close>: the
  property of an object, \<^verbatim>\<open>undefined\<close> when the object has none of that name. (The
  names read below are no property of an array, a string, a number or a boolean.)
\<close>

definition get_prop :: "jsvalue \<Rightarrow> jsstring \<Rightarrow> jsvalue" where
  "get_prop v k =
     (case v of
        JObject ms \<Rightarrow> (case map_of ms k of None \<Rightarrow> JUndefined | Some x \<Rightarrow> x)
      | _ \<Rightarrow> JUndefined)"

text \<open>
  The own enumerable properties that the spread \<^verbatim>\<open>{...card}\<close> copies: those of an
  object, the elements of an array and the code units of a string under their indices,
  none for any other value.
\<close>

definition spread :: "jsvalue \<Rightarrow> (jsstring \<times> jsvalue) list" where
  "spread v =
     (case v of
        JObject ms \<Rightarrow> ms
      | JArray vs \<Rightarrow> zip (map decimal [0..<length vs]) vs
      | JString s \<Rightarrow> zip (map decimal [0..<length s]) (map (\<lambda>c. JString [c]) s)
      | _ \<Rightarrow> [])"

text \<open>
  A property written in an object literal after a spread: it replaces the value of a
  property of that name, in its place, or is added last.
\<close>

definition set_prop :: "jsstring \<Rightarrow> jsvalue \<Rightarrow> (jsstring \<times> jsvalue) list \<Rightarrow> (jsstring \<times> jsvalue) list" where
  "set_prop k v ms =
     (if k \<in> fst ` set ms then map (\<lambda>m. if fst m = k then (k, v) else m) ms
      else ms @ [(k, v)])"

text \<open>\<^verbatim>\<open>tags.split(',').map(tag => tag.trim()).filter(Boolean)\<close>\<close>

definition parse_tags :: "jsstring \<Rightarrow> jsvalue" where
  "parse_tags tags = JArray (map JString (filter (\<lambda>tag. tag \<noteq> []) (map trim (split_on 44 tags))))"

text \<open>
  What the clock and the random generator give for one card: the value of
  \<^verbatim>\<open>Date.now()\<close>, the text of \<^verbatim>\<open>Math.random().toString(36)\<close> and the time value of
  \<^verbatim>\<open>new Date()\<close>.
\<close>

record stamp =
  date_now :: nat
  random36 :: jsstring
  new_date :: nat

text \<open>
  \<^verbatim>\<open>
  card => ({
    ...card,
    id: Date.now().toString() + Math.random().toString(36),
    tags: tags.split(',').map(tag => tag.trim()).filter(Boolean),
    createdAt: new Date(),
    difficulty,
  })
  \<close>
\<close>

definition with_metadata :: "jsstring \<Rightarrow> difficulty \<Rightarrow> stamp \<Rightarrow> jsvalue \<Rightarrow> jsvalue" where
  "with_metadata tags d s item =
     JObject
       (set_prop (js ''difficulty'') (JString (difficulty_name d))
         (set_prop (js ''createdAt'') (JDate (new_date s))
           (set_prop (js ''tags'') (parse_tags tags)
             (set_prop (js ''id'') (JString (decimal (date_now s) @ random36 s))
               (spread item)))))"

record FlashcardGenerator =
  inputContent :: jsstring
  flashcards :: "jsvalue list"
  fc_difficulty :: difficulty
  fc_tags :: jsstring
  processing :: bool

text \<open>
  \<^verbatim>\<open>
  const generateCards = async () => {
    if (!inputContent.trim()) return;
    setProcessing(true);
    try {
      const newCards = await generateFlashcards(inputContent, difficulty);
      const cardsWithMetadata = newCards.map(card => ({ ... }));
      setFlashcards(prev => [...cardsWithMetadata, ...prev]);
      setInputContent('');
      setTags('');
      toast({ title: 'Flashcards Generated!', ... });
    } catch (error) {
      console.error('Error generating flashcards:', error);
      toast({ title: 'Error', ... });
    } finally {
      setProcessing(false);
    }
  };
  \<close>
  \<open>stamps i\<close> is what the clock and the random generator give for the card at index
  \<open>i\<close>. A value that is not an array has no method \<^verbatim>\<open>map\<close>; the call on it throws, and
  the \<^verbatim>\<open>catch\<close> block changes no state. The toasts are left out.
\<close>

definition generateCards ::
  "network \<Rightarrow> jsstring option \<Rightarrow> (nat \<Rightarrow> stamp) \<Rightarrow> FlashcardGenerator \<Rightarrow> FlashcardGenerator" where
  "generateCards net stored stamps st =
     (if trim (inputContent st) = [] then st
      else
        (case generateFlashcards net stored (inputContent st) (fc_difficulty st) of
           Inr (JArray newCards) \<Rightarrow>
             (let cardsWithMetadata =
                    map (\<lambda>i. with_metadata (fc_tags st) (fc_difficulty st) (stamps i) (newCards ! i))
                      [0..<length newCards]
              in st\<lparr>flashcards := cardsWithMetadata @ flashcards st, inputContent := [],
                    fc_tags := [], processing := False\<rparr>)
         | _ \<Rightarrow> st\<lparr>processing := False\<rparr>))"

section \<open>JSON.stringify of a string\<close>

text \<open>
  \<^verbatim>\<open>JSON.stringify\<close> of a string, the way the inference server writes the completion
  into the body of its reply: the string in double quotes, with the quote, the
  backslash and the control characters BS, TAB, LF, FF and CR as their two-character
  escapes, every other code unit below U+0020 and every surrogate without its partner as
  \<^verbatim>\<open>\u\<close> and four lower-case hexadecimal digits, and all else as it is.
\<close>

definition hexdigit :: "nat \<Rightarrow> nat" where
  "hexdigit n = (if n < 10 then 48 + n else 87 + n)"

definition quote_unit :: "nat \<Rightarrow> jsstring" where
  "quote_unit c =
     (if c = 8 then [92, 98]
      else if c = 9 then [92, 116]
      else if c = 10 then [92, 110]
      else if c = 12 then [92, 102]
      else if c = 13 then [92, 114]
      else if c = 34 then [92, 34]
      else if c = 92 then [92, 92]
      else if c < 32 \<or> (55296 \<le> c \<and> c \<le> 57343) then
        [92, 117, hexdigit (c div 4096 mod 16), hexdigit (c div 256 mod 16),
         hexdigit (c div 16 mod 16), hexdigit (c mod 16)]
      else [c])"

fun quote_units :: "jsstring \<Rightarrow> jsstring" where
  "quote_units [] = []"
| "quote_units [c] = quote_unit c"
| "quote_units (c # c' # cs) =
     (if 55296 \<le> c \<and> c \<le> 56319 \<and> 56320 \<le> c' \<and> c' \<le> 57343
      then c # c' # quote_units cs
      else quote_unit c @ quote_units (c' # cs))"

definition quote :: "jsstring \<Rightarrow> jsstring" where
  "quote s = [34] @ quote_units s @ [34]"

section \<open>JSON.stringify and the study store\<close>





















section \<open>Example inputs\<close>

text \<open>
  Networks: one where the endpoint cannot be reached, and one that answers every request
  with the same status and body. \<open>completion_body t\<close> is the body of a reply of the
  inference server whose completion is the text \<open>t\<close>.
\<close>

definition unreachable :: network where
  "unreachable = (\<lambda>request. Rejected)"

definition replies :: "nat \<Rightarrow> jsstring \<Rightarrow> network" where
  "replies s b = (\<lambda>request. Fulfilled \<lparr>status = s, body = b\<rparr>)"

definition completion_body :: "jsstring \<Rightarrow> jsstring" where
  "completion_body t = js ''{\"response\":'' @ quote t @ js '',\"done\":true}''"

definition completes :: "jsstring \<Rightarrow> network" where
  "completes t = replies 200 (completion_body t)"



text \<open>Completion texts: a JSON array of two flashcards, and four lines of plain text.\<close>

definition two_cards :: jsstring where
  "two_cards = js ''[{\"front\":\"Q1\",\"back\":\"A1\"},{\"front\":\"Q2\",\"back\":\"A2\"}]''"

definition four_lines :: jsstring where
  "four_lines = js ''1. Q1\<newline>A1\<newline>2. Q2\<newline>A2''"

text \<open>The state of the flashcard generator before a request for hard cards.\<close>

definition example_generator :: FlashcardGenerator where
  "example_generator =
     \<lparr>inputContent = js ''notes'', flashcards = [], fc_difficulty = Hard,
      fc_tags = js ''a, b'', processing = False\<rparr>"

definition example_stamps :: "nat \<Rightarrow> stamp" where
  "example_stamps i = \<lparr>date_now = 1700 + i, random36 = js ''0.abc'', new_date = 1800 + i\<rparr>"



section \<open>What the specification promises of the generated items\<close>

text \<open>
  A flashcard list as the specification describes it: an array of one to five items,
  each with a non-empty string as its front and as its back.
\<close>

definition has_text :: "jsvalue \<Rightarrow> jsstring \<Rightarrow> bool" where
  "has_text v k \<longleftrightarrow> (case get_prop v k of JString s \<Rightarrow> s \<noteq> [] | _ \<Rightarrow> False)"

definition claimed_flashcards :: "jsvalue \<Rightarrow> bool" where
  "claimed_flashcards v \<longleftrightarrow>
     (case v of
        JArray cs \<Rightarrow>
          1 \<le> length cs \<and> length cs \<le> 5 \<and>
          list_all (\<lambda>c. has_text c (js ''front'') \<and> has_text c (js ''back'')) cs
      | _ \<Rightarrow> False)"

text \<open>
  A question list as the specification describes it: an array of at least one item,
  each with an array of exactly four options and one of the numbers 0, 1, 2, 3 as its
  correct answer.
\<close>

definition claimed_question :: "jsvalue \<Rightarrow> bool" where
  "claimed_question q \<longleftrightarrow>
     (case get_prop q (js ''options'') of JArray os \<Rightarrow> length os = 4 | _ \<Rightarrow> False) \<and>
     (case get_prop q (js ''correctAnswer'') of
        JNumber m e \<Rightarrow> e = 0 \<and> 0 \<le> m \<and> m \<le> 3
      | _ \<Rightarrow> False)"

definition claimed_questions :: "jsvalue \<Rightarrow> bool" where
  "claimed_questions v \<longleftrightarrow>
     (case v of JArray qs \<Rightarrow> 1 \<le> length qs \<and> list_all claimed_question qs | _ \<Rightarrow> False)"

section \<open>Notions for the round trip through JSON\<close>

text \<open>
  What may follow a value inside a JSON text: nothing, a comma, or a closing bracket or
  brace.
\<close>

definition delimited :: "jsstring \<Rightarrow> bool" where
  "delimited rest \<longleftrightarrow> rest = [] \<or> hd rest = 44 \<or> hd rest = 93 \<or> hd rest = 125"




section \<open>The parser never runs out of fuel\<close>













section \<open>JSON.parse reads back what JSON.stringify writes\<close>

subsection \<open>Strings\<close>

lemma hexval_hexdigit: "d < 16 \<Longrightarrow> hexval (hexdigit d) = Some d"
  by (auto simp add: hexval_def hexdigit_def)

lemma nibbles:
  fixes c :: nat
  assumes "c < 65536"
  shows "(c div 4096 mod 16) * 4096 + (c div 256 mod 16) * 256 + (c div 16 mod 16) * 16 + c mod 16 = c"
proof -
  have a: "(c div 16) * 16 + c mod 16 = c" by (rule div_mult_mod_eq)
  have b: "(c div 16 div 16) * 16 + c div 16 mod 16 = c div 16" by (rule div_mult_mod_eq)
  have c: "(c div 16 div 16 div 16) * 16 + c div 16 div 16 mod 16 = c div 16 div 16" by (rule div_mult_mod_eq)
  have e1: "c div 16 div 16 = c div 256"
    by (simp add: div_mult2_eq [symmetric])
  have e2: "c div 16 div 16 div 16 = c div 4096"
    by (simp add: div_mult2_eq [symmetric])
  have d: "c div 4096 < 16"
    using assms by (simp add: less_mult_imp_div_less)
  then have f: "c div 4096 mod 16 = c div 4096" by simp
  show ?thesis
    using a b c e1 e2 f by (simp only:)
qed


lemma string_chars_u:
  assumes "c < 65536"
  shows "string_chars ([92, 117, hexdigit (c div 4096 mod 16), hexdigit (c div 256 mod 16),
                        hexdigit (c div 16 mod 16), hexdigit (c mod 16)] @ t) =
         cons_char c (string_chars t)"
proof -
  define h3 h2 h1 h0 where "h3 = c div 4096 mod 16" and "h2 = c div 256 mod 16"
    and "h1 = c div 16 mod 16" and "h0 = c mod 16"
  have lt: "h3 < 16" "h2 < 16" "h1 < 16" "h0 < 16"
    by (simp_all add: h3_def h2_def h1_def h0_def)
  have sum: "h3 * 4096 + h2 * 256 + h1 * 16 + h0 = c"
    unfolding h3_def h2_def h1_def h0_def using assms by (rule nibbles)
  have "string_chars ([92, 117, hexdigit h3, hexdigit h2, hexdigit h1, hexdigit h0] @ t) =
        cons_char (h3 * 4096 + h2 * 256 + h1 * 16 + h0) (string_chars t)"
    using lt by (simp add: hexval_hexdigit)
  then show ?thesis
    unfolding sum unfolding h3_def h2_def h1_def h0_def .
qed

lemma string_chars_plain:
  "c \<noteq> 34 \<Longrightarrow> c \<noteq> 92 \<Longrightarrow> \<not> c < 32 \<Longrightarrow> string_chars (c # t) = cons_char c (string_chars t)"
  by simp

lemma string_chars_quote_unit:
  "string_chars (quote_unit c @ t) = cons_char c (string_chars t)"
proof -
  consider "c = 8" | "c = 9" | "c = 10" | "c = 12" | "c = 13" | "c = 34" | "c = 92"
    | (esc) "c \<notin> {8, 9, 10, 12, 13, 34, 92}" "c < 32 \<or> (55296 \<le> c \<and> c \<le> 57343)"
    | (plain) "c \<notin> {8, 9, 10, 12, 13, 34, 92}" "\<not> (c < 32 \<or> (55296 \<le> c \<and> c \<le> 57343))"
    by blast
  then show ?thesis
  proof cases
    case esc
    then have "c < 65536" by auto
    from string_chars_u [OF this, of t] esc show ?thesis
      by (simp add: quote_unit_def)
  next
    case plain
    then have "quote_unit c = [c]"
      by (simp add: quote_unit_def)
    with plain show ?thesis
      by simp
  qed (simp_all add: quote_unit_def escape_char_def)
qed

lemma string_chars_quote_units:
  "string_chars (quote_units s @ 34 # rest) = Some (s, rest)"
proof (induction s rule: quote_units.induct)
  case 1
  then show ?case by simp
next
  case (2 c)
  then show ?case
    by (simp add: string_chars_quote_unit cons_char_def)
next
  case (3 c c' cs)
  show ?case
  proof (cases "55296 \<le> c \<and> c \<le> 56319 \<and> 56320 \<le> c' \<and> c' \<le> 57343")
    case True
    then have q: "quote_units (c # c' # cs) = c # c' # quote_units cs"
      by simp
    from True have "string_chars (c # c' # quote_units cs @ 34 # rest) =
        cons_char c (cons_char c' (string_chars (quote_units cs @ 34 # rest)))"
      by simp
    with "3.IH"(1) [OF True] q show ?thesis
      by (simp add: cons_char_def)
  next
    case False
    then have q: "quote_units (c # c' # cs) = quote_unit c @ quote_units (c' # cs)"
      by (simp only: quote_units.simps if_False)
    show ?thesis
      using "3.IH"(2) [OF False]
      by (simp only: q append_assoc string_chars_quote_unit) (simp add: cons_char_def)
  qed
qed

lemma string_chars_quote: "string_chars (tl (quote s) @ rest) = Some (s, rest)"
  by (simp add: quote_def string_chars_quote_units)

subsection \<open>Numbers\<close>













lemma isDigit_zeros: "\<forall>c \<in> set (replicate j 48). isDigit c"
  by (simp add: isDigit_def)

















subsection \<open>Values\<close>

text \<open>
  A text that \<open>JSON_stringify\<close> writes is read back, whatever follows it after a comma
  or a closing bracket or brace, as the JSON image of the value, unless the fuel runs out.
\<close>

lemma skip_ws_no_ws: "\<not> isJsonWs c \<Longrightarrow> skip_ws (c # r) = c # r"
  by (simp add: skip_ws_def)

lemma delimited_skip_ws: "delimited rest \<Longrightarrow> skip_ws rest = rest"
  by (cases rest) (auto simp add: delimited_def skip_ws_def isJsonWs_def)






















section \<open>Evaluation on the example inputs\<close>

lemmas parse_eval = JSON_parse_def js_def skip_ws_def isJsonWs_def cons_char_def set_member_def
  hexval_def escape_char_def parse_number_def parse_fraction_def parse_exponent_def mk_number_def
  digits_value_def isDigit_def

lemmas quote_eval = quote_def quote_unit_def hexdigit_def completion_body_def

lemma callOllama_replies:
  "callOllama (replies s b) stored prompt =
     (if 200 \<le> s \<and> s \<le> 299
      then (case JSON_parse b of
              None \<Rightarrow> Inl (Error connect_message)
            | Some data \<Rightarrow>
                (case get_response data of
                   Inl e \<Rightarrow> Inl (Error connect_message)
                 | Inr v \<Rightarrow> Inr v))
      else Inl (Error connect_message))"
  by (simp add: callOllama_def callOllama_try_def replies_def ok_def split: option.splits)

lemma callOllama_unreachable:
  "callOllama unreachable stored prompt = Inl (Error connect_message)"
  by (simp add: callOllama_def callOllama_try_def unreachable_def)

lemma get_response_body:
  "get_response (JObject [(js ''response'', v), (js ''done'', w)]) = Inr v"
  by (simp add: get_response_def)

lemma parse_body_two_cards:
  "JSON_parse (completion_body two_cards) =
     Some (JObject [(js ''response'', JString two_cards), (js ''done'', JBool True)])"
  by (simp add: parse_eval quote_eval two_cards_def)

lemma parse_body_four_lines:
  "JSON_parse (completion_body four_lines) =
     Some (JObject [(js ''response'', JString four_lines), (js ''done'', JBool True)])"
  by (simp add: parse_eval quote_eval four_lines_def)

lemma parse_body_empty_array:
  "JSON_parse (completion_body (js ''[]'')) =
     Some (JObject [(js ''response'', JString (js ''[]'')), (js ''done'', JBool True)])"
  by (simp add: parse_eval quote_eval)

lemma parse_body_oops:
  "JSON_parse (completion_body (js ''[oops]'')) =
     Some (JObject [(js ''response'', JString (js ''[oops]'')), (js ''done'', JBool True)])"
  by (simp add: parse_eval quote_eval)

lemma parse_body_garbage:
  "JSON_parse (completion_body (js ''no cards today'')) =
     Some (JObject [(js ''response'', JString (js ''no cards today'')), (js ''done'', JBool True)])"
  by (simp add: parse_eval quote_eval)

lemma completes_two_cards:
  "callOllama (completes two_cards) stored prompt = Inr (JString two_cards)"
  by (simp add: completes_def callOllama_replies parse_body_two_cards get_response_body)

lemma completes_four_lines:
  "callOllama (completes four_lines) stored prompt = Inr (JString four_lines)"
  by (simp add: completes_def callOllama_replies parse_body_four_lines get_response_body)

lemma completes_empty_array:
  "callOllama (completes (js ''[]'')) stored prompt = Inr (JString (js ''[]''))"
  by (simp add: completes_def callOllama_replies parse_body_empty_array get_response_body)

lemma completes_oops:
  "callOllama (completes (js ''[oops]'')) stored prompt = Inr (JString (js ''[oops]''))"
  by (simp add: completes_def callOllama_replies parse_body_oops get_response_body)

lemma completes_garbage:
  "callOllama (completes (js ''no cards today'')) stored prompt = Inr (JString (js ''no cards today''))"
  by (simp add: completes_def callOllama_replies parse_body_garbage get_response_body)

lemma jsonMatch_two_cards: "jsonMatch two_cards = Some two_cards"
  by (simp add: jsonMatch_def two_cards_def js_def)

lemma jsonMatch_empty_array: "jsonMatch (js ''[]'') = Some (js ''[]'')"
  by (simp add: jsonMatch_def js_def)

lemma jsonMatch_oops: "jsonMatch (js ''[oops]'') = Some (js ''[oops]'')"
  by (simp add: jsonMatch_def js_def)

lemma jsonMatch_garbage: "jsonMatch (js ''no cards today'') = None"
  by (simp add: jsonMatch_def js_def)

lemma jsonMatch_four_lines: "jsonMatch four_lines = None"
  by (simp add: jsonMatch_def four_lines_def js_def)

lemma parse_two_cards:
  "JSON_parse two_cards =
     Some (JArray [flashcard (js ''Q1'') (js ''A1''), flashcard (js ''Q2'') (js ''A2'')])"
  by (simp add: parse_eval two_cards_def flashcard_def)

lemma parse_empty_array: "JSON_parse (js ''[]'') = Some (JArray [])"
  by (simp add: parse_eval)

lemma parse_oops: "JSON_parse (js ''[oops]'') = None"
  by (simp add: parse_eval)

lemma lines_garbage:
  "pair_lines (filter (\<lambda>line. trim line \<noteq> []) (split_on 10 (js ''no cards today''))) = []"
  by (simp add: js_def trim_def isWhiteSpace_def)

lemma lines_four:
  "pair_lines (filter (\<lambda>line. trim line \<noteq> []) (split_on 10 four_lines)) =
     [flashcard (js ''Q1'') (js ''A1''), flashcard (js ''Q2'') (js ''A2'')]"
  by (simp add: four_lines_def js_def trim_def isWhiteSpace_def strip_ordinal_def isDigit_def)

section \<open>The branches of the two generators\<close>

lemma generateFlashcards_cases:
  "generateFlashcards net stored content d =
     (case callOllama net stored (flashcard_prompt content d) of
        Inr (JString t) \<Rightarrow>
          (case jsonMatch t of
             Some m \<Rightarrow> (case JSON_parse m of None \<Rightarrow> Inr fallback_flashcards | Some v \<Rightarrow> Inr v)
           | None \<Rightarrow>
               Inr (JArray (take 5 (pair_lines (filter (\<lambda>line. trim line \<noteq> []) (split_on 10 t))))))
      | _ \<Rightarrow> Inr fallback_flashcards)"
  by (simp add: generateFlashcards_def generateFlashcards_try_def
        split: sum.splits jsvalue.splits option.splits)

lemma generateMCQs_cases:
  "generateMCQs net stored content d =
     (case callOllama net stored (mcq_prompt content d) of
        Inr (JString t) \<Rightarrow>
          (case jsonMatch t of
             Some m \<Rightarrow> (case JSON_parse m of None \<Rightarrow> Inr fallback_question_on_error | Some v \<Rightarrow> Inr v)
           | None \<Rightarrow> Inr fallback_questions)
      | _ \<Rightarrow> Inr fallback_question_on_error)"
  by (simp add: generateMCQs_def generateMCQs_try_def
        split: sum.splits jsvalue.splits option.splits)

lemma pair_lines_back:
  "\<forall>l \<in> set ls. trim l \<noteq> [] \<Longrightarrow> \<forall>c \<in> set (pair_lines ls). \<exists>f b. c = flashcard f b \<and> b \<noteq> []"
  by (induction ls rule: pair_lines.induct) auto

lemma claimed_fallback_flashcards: "claimed_flashcards fallback_flashcards"
  by (simp add: claimed_flashcards_def fallback_flashcards_def has_text_def get_prop_def
        flashcard_def js_def)

lemma claimed_fallback_questions:
  "claimed_questions fallback_questions" "claimed_questions fallback_question_on_error"
  by (simp_all add: claimed_questions_def claimed_question_def fallback_questions_def
        fallback_question_on_error_def get_prop_def mcq_def js_def)

lemma connect_message_port: "\<exists>pre. connect_message = pre @ js ''localhost:11434''"
proof
  show "connect_message =
          js ''Failed to connect to Ollama. Make sure Ollama is running on '' @ js ''localhost:11434''"
    by (simp add: connect_message_def js_def)
qed

section \<open>Properties of the to-do list\<close>

text \<open>
  C10: when the trimmed input is empty, \<open>addTodo\<close> leaves the whole state, and so the
  to-do list, as it was. Otherwise the new list is one new item followed by the old
  list, item for item; the new item's text is the trimmed input and it is not completed.
\<close>

theorem addTodo_blank_or_prepend:
  "(trim (newTodo st) = [] \<longrightarrow> addTodo now date st = st) \<and>
   (trim (newTodo st) \<noteq> [] \<longrightarrow>
      todos (addTodo now date st) =
        \<lparr>todo_id = decimal now, todo_text = trim (newTodo st), completed = False,
         todo_createdAt = date\<rparr> # todos st)"
  by (simp add: addTodo_def Let_def)

theorem addTodo_blank_or_prepend_witness:
  "addTodo 5 6 \<lparr>todos = [], newTodo = js ''  ''\<rparr> = \<lparr>todos = [], newTodo = js ''  ''\<rparr> \<and>
   todos (addTodo 5 6 \<lparr>todos = [], newTodo = js '' milk  ''\<rparr>) =
     [\<lparr>todo_id = js ''5'', todo_text = js ''milk'', completed = False, todo_createdAt = 6\<rparr>]"
  using addTodo_blank_or_prepend [of "\<lparr>todos = [], newTodo = js ''  ''\<rparr>" 5 6]
        addTodo_blank_or_prepend [of "\<lparr>todos = [], newTodo = js '' milk  ''\<rparr>" 5 6]
  by (simp add: trim_def js_def isWhiteSpace_def decimal.simps)

section \<open>Properties of the quiz result\<close>



text \<open>
  C9: the score of the new result is the number of its answer records whose flag is
  true, and it lies between 0 and the total number of questions.
\<close>

theorem finishQuiz_score:
  "\<exists>r. quizResults (finishQuiz now date st) = r # quizResults st \<and>
       score r = length (filter correct (answers r)) \<and>
       0 \<le> score r \<and> score r \<le> totalQuestions r"
  by (simp add: finishQuiz_def Let_def)

section \<open>Properties of the model gateway\<close>

text \<open>
  C5: \<open>callOllama\<close> fails with the connectivity error when the endpoint cannot be
  reached and when it answers with a status outside 200 to 299; the message of that
  error ends with the host and port \<open>localhost:11434\<close>. When the endpoint answers with a
  status from 200 to 299 and a body that is a JSON object with a field \<open>response\<close>,
  \<open>callOllama\<close> returns the value of that field, the completion text.
\<close>

theorem callOllama_outcomes:
  "(net (generate_request stored prompt) = Rejected \<longrightarrow>
      callOllama net stored prompt = Inl (Error connect_message)) \<and>
   (\<forall>r. net (generate_request stored prompt) = Fulfilled r \<and> \<not> ok r \<longrightarrow>
      callOllama net stored prompt = Inl (Error connect_message)) \<and>
   (\<forall>r ms v. net (generate_request stored prompt) = Fulfilled r \<and> ok r \<and>
      JSON_parse (body r) = Some (JObject ms) \<and> map_of ms (js ''response'') = Some v \<longrightarrow>
      callOllama net stored prompt = Inr v) \<and>
   (\<exists>pre. connect_message = pre @ js ''localhost:11434'')"
  using connect_message_port
  by (simp add: callOllama_def callOllama_try_def get_response_def)

theorem callOllama_outcomes_witness:
  "callOllama unreachable None (js ''p'') = Inl (Error connect_message) \<and>
   callOllama (replies 500 []) None (js ''p'') = Inl (Error connect_message) \<and>
   callOllama (replies 200 (completion_body two_cards)) None (js ''p'') = Inr (JString two_cards)"
proof -
  have 1: "callOllama unreachable None (js ''p'') = Inl (Error connect_message)"
    using callOllama_outcomes [of unreachable None "js ''p''"]
    by (simp add: unreachable_def)
  have 2: "callOllama (replies 500 []) None (js ''p'') = Inl (Error connect_message)"
    using callOllama_outcomes [of "replies 500 []" None "js ''p''"]
    by (simp add: replies_def ok_def)
  have "map_of [(js ''response'', JString two_cards), (js ''done'', JBool True)] (js ''response'')
          = Some (JString two_cards)"
    by simp
  then have 3: "callOllama (replies 200 (completion_body two_cards)) None (js ''p'') =
                  Inr (JString two_cards)"
    using callOllama_outcomes [of "replies 200 (completion_body two_cards)" None "js ''p''"]
      parse_body_two_cards
    by (simp add: replies_def ok_def)
  from 1 2 3 show ?thesis by simp
qed

text \<open>
  A reply with a status from 200 to 299 whose body is not JSON, or is the JSON
  \<^verbatim>\<open>null\<close>, ends in the same connectivity error.
\<close>

lemma callOllama_malformed_body:
  "net (generate_request stored prompt) = Fulfilled r \<Longrightarrow>
   JSON_parse (body r) = None \<or> JSON_parse (body r) = Some JNull \<Longrightarrow>
   callOllama net stored prompt = Inl (Error connect_message)"
  by (auto simp add: callOllama_def callOllama_try_def get_response_def)

text \<open>
  C7: \<open>checkOllamaConnection\<close> never throws: whatever the network does, it returns a
  boolean. The boolean is false when the endpoint cannot be reached and when it answers
  with a status outside 200 to 299.
\<close>

theorem checkOllamaConnection_never_throws:
  "(\<exists>b. checkOllamaConnection net = Inr b) \<and>
   (net tags_request = Rejected \<longrightarrow> checkOllamaConnection net = Inr False) \<and>
   (\<forall>r. net tags_request = Fulfilled r \<and> \<not> ok r \<longrightarrow> checkOllamaConnection net = Inr False)"
  by (auto simp add: checkOllamaConnection_def split: fetch_result.splits)

theorem checkOllamaConnection_never_throws_witness:
  "checkOllamaConnection unreachable = Inr False \<and>
   checkOllamaConnection (replies 404 []) = Inr False"
  using checkOllamaConnection_never_throws [of unreachable]
        checkOllamaConnection_never_throws [of "replies 404 []"]
  by (simp add: unreachable_def replies_def ok_def)

section \<open>Properties of the flashcard generation\<close>

text \<open>
  C8: when the completion is the four lines \<^verbatim>\<open>1. Q1\<close>, \<^verbatim>\<open>A1\<close>, \<^verbatim>\<open>2. Q2\<close>, \<^verbatim>\<open>A2\<close>, which
  hold no bracket, \<open>generateFlashcards\<close> returns exactly the two cards with the fronts
  \<^verbatim>\<open>Q1\<close> and \<^verbatim>\<open>Q2\<close>, the ordinal prefixes stripped, and the backs \<^verbatim>\<open>A1\<close> and \<^verbatim>\<open>A2\<close>.
\<close>

theorem generateFlashcards_line_pairs:
  "callOllama net stored (flashcard_prompt content d) = Inr (JString four_lines) \<Longrightarrow>
   jsonMatch four_lines = None \<and>
   generateFlashcards net stored content d =
     Inr (JArray [flashcard (js ''Q1'') (js ''A1''), flashcard (js ''Q2'') (js ''A2'')])"
  by (simp add: generateFlashcards_cases jsonMatch_four_lines lines_four)

theorem generateFlashcards_line_pairs_witness:
  "generateFlashcards (completes four_lines) None (js ''notes'') Easy =
     Inr (JArray [flashcard (js ''Q1'') (js ''A1''), flashcard (js ''Q2'') (js ''A2'')])"
  using generateFlashcards_line_pairs [of "completes four_lines" None "js ''notes''" Easy]
    completes_four_lines
  by simp

text \<open>
  C1, as the specification states it, fails: when the completion is the empty JSON array
  \<^verbatim>\<open>[]\<close>, \<open>generateFlashcards\<close> returns the empty array, which has fewer than one item.
\<close>

theorem generateFlashcards_empty_array:
  "generateFlashcards (completes (js ''[]'')) None (js ''notes'') Easy = Inr (JArray []) \<and>
   \<not> claimed_flashcards (JArray [])"
  by (simp add: generateFlashcards_cases completes_empty_array jsonMatch_empty_array
        parse_empty_array claimed_flashcards_def)

text \<open>
  C1, amended: \<open>generateFlashcards\<close> never fails. It returns the two fallback cards,
  which are a list as the specification describes it, when the gateway fails or gives no
  string, and when the bracketed part of the completion is not JSON. When the bracketed
  part is JSON it returns the parsed value as it is. When the completion has no
  bracketed part it returns an array of at most five cards, possibly none, each made of
  a front and a non-empty back.
\<close>

theorem generateFlashcards_total:
  "(\<exists>v. generateFlashcards net stored content d = Inr v) \<and>
   ((\<forall>t. callOllama net stored (flashcard_prompt content d) \<noteq> Inr (JString t)) \<longrightarrow>
      generateFlashcards net stored content d = Inr fallback_flashcards) \<and>
   (\<forall>t m. callOllama net stored (flashcard_prompt content d) = Inr (JString t) \<and>
      jsonMatch t = Some m \<and> JSON_parse m = None \<longrightarrow>
      generateFlashcards net stored content d = Inr fallback_flashcards) \<and>
   (\<forall>t m v. callOllama net stored (flashcard_prompt content d) = Inr (JString t) \<and>
      jsonMatch t = Some m \<and> JSON_parse m = Some v \<longrightarrow>
      generateFlashcards net stored content d = Inr v) \<and>
   (\<forall>t. callOllama net stored (flashcard_prompt content d) = Inr (JString t) \<and>
      jsonMatch t = None \<longrightarrow>
      (\<exists>cs. generateFlashcards net stored content d = Inr (JArray cs) \<and> length cs \<le> 5 \<and>
            (\<forall>c \<in> set cs. \<exists>f b. c = flashcard f b \<and> b \<noteq> []))) \<and>
   claimed_flashcards fallback_flashcards"
proof -
  have total: "\<exists>v. generateFlashcards net stored content d = Inr v"
    by (simp add: generateFlashcards_def split: sum.splits)
  have no_text: "generateFlashcards net stored content d = Inr fallback_flashcards"
    if "\<forall>t. callOllama net stored (flashcard_prompt content d) \<noteq> Inr (JString t)"
    using that by (simp add: generateFlashcards_cases split: sum.splits jsvalue.splits)
  have paired: "\<exists>cs. generateFlashcards net stored content d = Inr (JArray cs) \<and> length cs \<le> 5 \<and>
                  (\<forall>c \<in> set cs. \<exists>f b. c = flashcard f b \<and> b \<noteq> [])"
    if t: "callOllama net stored (flashcard_prompt content d) = Inr (JString t)"
      and m: "jsonMatch t = None" for t
  proof -
    let ?ls = "filter (\<lambda>line. trim line \<noteq> []) (split_on 10 t)"
    have "\<forall>c \<in> set (pair_lines ?ls). \<exists>f b. c = flashcard f b \<and> b \<noteq> []"
      by (rule pair_lines_back) simp
    then have "\<forall>c \<in> set (take 5 (pair_lines ?ls)). \<exists>f b. c = flashcard f b \<and> b \<noteq> []"
      by (meson in_set_takeD)
    moreover have "generateFlashcards net stored content d = Inr (JArray (take 5 (pair_lines ?ls)))"
      using t m by (simp add: generateFlashcards_cases)
    moreover have "length (take 5 (pair_lines ?ls)) \<le> 5"
      by simp
    ultimately show ?thesis by blast
  qed
  show ?thesis
    using total no_text paired claimed_fallback_flashcards
    by (simp add: generateFlashcards_cases)
qed

theorem generateFlashcards_total_witness:
  "generateFlashcards unreachable None (js ''notes'') Easy = Inr fallback_flashcards \<and>
   generateFlashcards (completes (js ''[oops]'')) None (js ''notes'') Easy = Inr fallback_flashcards \<and>
   generateFlashcards (completes two_cards) None (js ''notes'') Easy =
     Inr (JArray [flashcard (js ''Q1'') (js ''A1''), flashcard (js ''Q2'') (js ''A2'')]) \<and>
   (\<exists>cs. generateFlashcards (completes (js ''no cards today'')) None (js ''notes'') Easy =
           Inr (JArray cs) \<and> length cs \<le> 5)"
proof -
  have 1: "generateFlashcards unreachable None (js ''notes'') Easy = Inr fallback_flashcards"
    using generateFlashcards_total [of unreachable None "js ''notes''" Easy]
    by (simp add: callOllama_unreachable)
  have 2: "generateFlashcards (completes (js ''[oops]'')) None (js ''notes'') Easy =
             Inr fallback_flashcards"
    using generateFlashcards_total [of "completes (js ''[oops]'')" None "js ''notes''" Easy]
    by (simp add: completes_oops jsonMatch_oops parse_oops)
  have 3: "generateFlashcards (completes two_cards) None (js ''notes'') Easy =
             Inr (JArray [flashcard (js ''Q1'') (js ''A1''), flashcard (js ''Q2'') (js ''A2'')])"
    using generateFlashcards_total [of "completes two_cards" None "js ''notes''" Easy]
    by (simp add: completes_two_cards jsonMatch_two_cards parse_two_cards)
  have 4: "\<exists>cs. generateFlashcards (completes (js ''no cards today'')) None (js ''notes'') Easy =
             Inr (JArray cs) \<and> length cs \<le> 5"
    using generateFlashcards_total [of "completes (js ''no cards today'')" None "js ''notes''" Easy]
    by (simp add: completes_garbage jsonMatch_garbage) blast
  from 1 2 3 4 show ?thesis by simp
qed

text \<open>
  Two more completions that leave the description of the specification: text with no
  bracket and fewer than two non-blank lines gives no card, and a first line that is
  only an ordinal gives a card with an empty front.
\<close>

lemma generateFlashcards_no_pair:
  "callOllama net stored (flashcard_prompt content d) = Inr (JString (js ''no cards today'')) \<Longrightarrow>
   generateFlashcards net stored content d = Inr (JArray [])"
  by (simp add: generateFlashcards_cases jsonMatch_garbage lines_garbage)

lemma generateFlashcards_empty_front:
  "callOllama net stored (flashcard_prompt content d) = Inr (JString (js ''1.\<newline>A'')) \<Longrightarrow>
   generateFlashcards net stored content d = Inr (JArray [flashcard [] (js ''A'')])"
  by (simp add: generateFlashcards_cases jsonMatch_def js_def trim_def isWhiteSpace_def
        strip_ordinal_def isDigit_def)

section \<open>Properties of the quiz generation\<close>

text \<open>
  C2, as the specification states it, fails: when the completion is the empty JSON array
  \<^verbatim>\<open>[]\<close>, \<open>generateMCQs\<close> returns the empty array, which has no item.
\<close>

theorem generateMCQs_empty_array:
  "generateMCQs (completes (js ''[]'')) None (js ''notes'') Easy = Inr (JArray []) \<and>
   \<not> claimed_questions (JArray [])"
  by (simp add: generateMCQs_cases completes_empty_array jsonMatch_empty_array
        parse_empty_array claimed_questions_def)

text \<open>
  C2, amended: \<open>generateMCQs\<close> never fails. When the completion has no bracketed part
  it returns the two fallback questions; when the gateway fails or gives no string, and
  when the bracketed part is not JSON, it returns the one fallback question of the
  \<^verbatim>\<open>catch\<close> block. Both fallback lists are as the specification describes: at least
  one item, each with exactly four options and a correct answer from 0 to 3. When the
  bracketed part is JSON, the parsed value is returned as it is.
\<close>

theorem generateMCQs_total:
  "(\<exists>v. generateMCQs net stored content d = Inr v) \<and>
   ((\<forall>t. callOllama net stored (mcq_prompt content d) \<noteq> Inr (JString t)) \<longrightarrow>
      generateMCQs net stored content d = Inr fallback_question_on_error) \<and>
   (\<forall>t m. callOllama net stored (mcq_prompt content d) = Inr (JString t) \<and>
      jsonMatch t = Some m \<and> JSON_parse m = None \<longrightarrow>
      generateMCQs net stored content d = Inr fallback_question_on_error) \<and>
   (\<forall>t m v. callOllama net stored (mcq_prompt content d) = Inr (JString t) \<and>
      jsonMatch t = Some m \<and> JSON_parse m = Some v \<longrightarrow>
      generateMCQs net stored content d = Inr v) \<and>
   (\<forall>t. callOllama net stored (mcq_prompt content d) = Inr (JString t) \<and>
      jsonMatch t = None \<longrightarrow>
      generateMCQs net stored content d = Inr fallback_questions) \<and>
   claimed_questions fallback_questions \<and> claimed_questions fallback_question_on_error"
proof -
  have total: "\<exists>v. generateMCQs net stored content d = Inr v"
    by (simp add: generateMCQs_def split: sum.splits)
  have no_text: "generateMCQs net stored content d = Inr fallback_question_on_error"
    if "\<forall>t. callOllama net stored (mcq_prompt content d) \<noteq> Inr (JString t)"
    using that by (simp add: generateMCQs_cases split: sum.splits jsvalue.splits)
  show ?thesis
    using total no_text claimed_fallback_questions
    by (simp add: generateMCQs_cases)
qed

theorem generateMCQs_total_witness:
  "generateMCQs unreachable None (js ''notes'') Easy = Inr fallback_question_on_error \<and>
   generateMCQs (completes (js ''[oops]'')) None (js ''notes'') Easy = Inr fallback_question_on_error \<and>
   generateMCQs (completes two_cards) None (js ''notes'') Easy =
     Inr (JArray [flashcard (js ''Q1'') (js ''A1''), flashcard (js ''Q2'') (js ''A2'')]) \<and>
   generateMCQs (completes (js ''no cards today'')) None (js ''notes'') Easy = Inr fallback_questions"
proof -
  have 1: "generateMCQs unreachable None (js ''notes'') Easy = Inr fallback_question_on_error"
    using generateMCQs_total [of unreachable None "js ''notes''" Easy]
    by (simp add: callOllama_unreachable)
  have 2: "generateMCQs (completes (js ''[oops]'')) None (js ''notes'') Easy =
             Inr fallback_question_on_error"
    using generateMCQs_total [of "completes (js ''[oops]'')" None "js ''notes''" Easy]
    by (simp add: completes_oops jsonMatch_oops parse_oops)
  have 3: "generateMCQs (completes two_cards) None (js ''notes'') Easy =
             Inr (JArray [flashcard (js ''Q1'') (js ''A1''), flashcard (js ''Q2'') (js ''A2'')])"
    using generateMCQs_total [of "completes two_cards" None "js ''notes''" Easy]
    by (simp add: completes_two_cards jsonMatch_two_cards parse_two_cards)
  have 4: "generateMCQs (completes (js ''no cards today'')) None (js ''notes'') Easy =
             Inr fallback_questions"
    using generateMCQs_total [of "completes (js ''no cards today'')" None "js ''notes''" Easy]
    by (simp add: completes_garbage jsonMatch_garbage)
  from 1 2 3 4 show ?thesis by simp
qed

text \<open>
  C4, as the specification states it, fails: on the completion
  \<^verbatim>\<open>[{"front":"Q1","back":"A1"},{"front":"Q2","back":"A2"}]\<close> the function
  \<open>generateFlashcards\<close> returns the two records with their front and back and nothing
  else: no identifier, no timestamp and no difficulty.
\<close>

theorem generateFlashcards_two_cards_bare:
  "generateFlashcards (completes two_cards) None (js ''notes'') Hard =
     Inr (JArray [flashcard (js ''Q1'') (js ''A1''), flashcard (js ''Q2'') (js ''A2'')]) \<and>
   get_prop (flashcard (js ''Q1'') (js ''A1'')) (js ''id'') = JUndefined \<and>
   get_prop (flashcard (js ''Q1'') (js ''A1'')) (js ''createdAt'') = JUndefined \<and>
   get_prop (flashcard (js ''Q1'') (js ''A1'')) (js ''difficulty'') = JUndefined \<and>
   get_prop (flashcard (js ''Q2'') (js ''A2'')) (js ''id'') = JUndefined \<and>
   get_prop (flashcard (js ''Q2'') (js ''A2'')) (js ''createdAt'') = JUndefined \<and>
   get_prop (flashcard (js ''Q2'') (js ''A2'')) (js ''difficulty'') = JUndefined"
proof -
  have "generateFlashcards (completes two_cards) None (js ''notes'') Hard =
          Inr (JArray [flashcard (js ''Q1'') (js ''A1''), flashcard (js ''Q2'') (js ''A2'')])"
    by (simp add: generateFlashcards_cases completes_two_cards jsonMatch_two_cards parse_two_cards)
  moreover have "get_prop (flashcard f b) (js ''id'') = JUndefined \<and>
                 get_prop (flashcard f b) (js ''createdAt'') = JUndefined \<and>
                 get_prop (flashcard f b) (js ''difficulty'') = JUndefined" for f b
    by (simp add: get_prop_def flashcard_def js_def)
  ultimately show ?thesis by simp
qed

text \<open>
  C4, amended: on that completion \<open>generateFlashcards\<close> returns exactly the two records
  of a front and a back. Its caller \<open>generateCards\<close> then puts them in front of the
  stored cards, each with an identifier, the tags, a timestamp and the requested
  difficulty added.
\<close>

theorem generateCards_two_cards:
  "(callOllama net stored (flashcard_prompt content d) = Inr (JString two_cards) \<longrightarrow>
      generateFlashcards net stored content d =
        Inr (JArray [flashcard (js ''Q1'') (js ''A1''), flashcard (js ''Q2'') (js ''A2'')])) \<and>
   (trim (inputContent st) \<noteq> [] \<and>
    callOllama net stored (flashcard_prompt (inputContent st) (fc_difficulty st)) =
      Inr (JString two_cards) \<longrightarrow>
      flashcards (generateCards net stored stamps st) =
        [JObject [(js ''front'', JString (js ''Q1'')), (js ''back'', JString (js ''A1'')),
                  (js ''id'', JString (decimal (date_now (stamps 0)) @ random36 (stamps 0))),
                  (js ''tags'', parse_tags (fc_tags st)),
                  (js ''createdAt'', JDate (new_date (stamps 0))),
                  (js ''difficulty'', JString (difficulty_name (fc_difficulty st)))],
         JObject [(js ''front'', JString (js ''Q2'')), (js ''back'', JString (js ''A2'')),
                  (js ''id'', JString (decimal (date_now (stamps 1)) @ random36 (stamps 1))),
                  (js ''tags'', parse_tags (fc_tags st)),
                  (js ''createdAt'', JDate (new_date (stamps 1))),
                  (js ''difficulty'', JString (difficulty_name (fc_difficulty st)))]]
        @ flashcards st)"
proof -
  have parsed: "generateFlashcards net stored content d =
      Inr (JArray [flashcard (js ''Q1'') (js ''A1''), flashcard (js ''Q2'') (js ''A2'')])"
    if "callOllama net stored (flashcard_prompt content d) = Inr (JString two_cards)"
    for content d
    using that by (simp add: generateFlashcards_cases jsonMatch_two_cards parse_two_cards)
  have meta: "with_metadata tags d s (flashcard f b) =
      JObject [(js ''front'', JString f), (js ''back'', JString b),
               (js ''id'', JString (decimal (date_now s) @ random36 s)),
               (js ''tags'', parse_tags tags),
               (js ''createdAt'', JDate (new_date s)),
               (js ''difficulty'', JString (difficulty_name d))]" for tags d s f b
    by (simp add: with_metadata_def spread_def set_prop_def flashcard_def js_def)
  have upt2: "[0..<Suc (Suc 0)] = [0, Suc 0]"
    by (simp add: upt_rec)
  show ?thesis
    using parsed by (simp add: generateCards_def Let_def meta upt2)
qed

theorem generateCards_two_cards_witness:
  "generateFlashcards (completes two_cards) None (js ''notes'') Hard =
     Inr (JArray [flashcard (js ''Q1'') (js ''A1''), flashcard (js ''Q2'') (js ''A2'')]) \<and>
   flashcards (generateCards (completes two_cards) None example_stamps example_generator) =
     [JObject [(js ''front'', JString (js ''Q1'')), (js ''back'', JString (js ''A1'')),
               (js ''id'', JString (js ''17000.abc'')),
               (js ''tags'', JArray [JString (js ''a''), JString (js ''b'')]),
               (js ''createdAt'', JDate 1800),
               (js ''difficulty'', JString (js ''hard''))],
      JObject [(js ''front'', JString (js ''Q2'')), (js ''back'', JString (js ''A2'')),
               (js ''id'', JString (js ''17010.abc'')),
               (js ''tags'', JArray [JString (js ''a''), JString (js ''b'')]),
               (js ''createdAt'', JDate 1801),
               (js ''difficulty'', JString (js ''hard''))]]"
proof -
  have trimmed: "trim (inputContent example_generator) \<noteq> []"
    by (simp add: example_generator_def trim_def js_def isWhiteSpace_def)
  have tags: "parse_tags (fc_tags example_generator) = JArray [JString (js ''a''), JString (js ''b'')]"
    by (simp add: parse_tags_def example_generator_def trim_def js_def isWhiteSpace_def)
  have ids: "decimal (date_now (example_stamps 0)) @ random36 (example_stamps 0) = js ''17000.abc''"
            "decimal (date_now (example_stamps (Suc 0))) @ random36 (example_stamps (Suc 0)) =
               js ''17010.abc''"
    by (simp_all add: example_stamps_def decimal.simps js_def)
  have rest: "new_date (example_stamps 0) = 1800" "new_date (example_stamps (Suc 0)) = 1801"
             "difficulty_name (fc_difficulty example_generator) = js ''hard''"
             "flashcards example_generator = []"
    by (simp_all add: example_stamps_def example_generator_def difficulty_name_def)
  show ?thesis
    using generateCards_two_cards [of "completes two_cards" None "js ''notes''" Hard
        example_generator example_stamps]
      trimmed
    by (simp add: completes_two_cards tags ids rest)
qed

section \<open>Properties of the study store\<close>











end
